theory Spec2Isabelle
  imports Main "HOL-Library.Stream"
begin

section \<open>serve.py: a static file server that adds the COOP and COEP header lines\<close>

text \<open>
  The script \<^verbatim>\<open>player-wasm/src/main/resources/web/serve.py\<close> is nineteen lines:
  a subclass \<^verbatim>\<open>Handler\<close> of \<^verbatim>\<open>http.server.SimpleHTTPRequestHandler\<close> that overrides
  \<^verbatim>\<open>end_headers\<close>, the computation of \<^verbatim>\<open>PORT\<close> from \<^verbatim>\<open>sys.argv\<close>, and a
  \<^verbatim>\<open>with\<close> block that builds a \<^verbatim>\<open>socketserver.TCPServer\<close>, prints one line and
  calls \<^verbatim>\<open>serve_forever\<close>.

  Definitions marked \<^emph>\<open>script\<close> embed lines of serve.py. The script calls into Python's
  builtins and standard library; the few library functions its behaviour depends on are
  embedded from CPython 3.11 (\<^verbatim>\<open>Lib/http/server.py\<close>, \<^verbatim>\<open>Lib/socketserver.py\<close>, the
  \<^verbatim>\<open>int\<close> and \<^verbatim>\<open>str\<close> builtins, the \<^verbatim>\<open>socket\<close> module) and are marked
  \<^emph>\<open>library\<close>. What the operating system and the network do is an explicit argument
  (\<open>os_env\<close>, a stream of \<open>iteration\<close>s).
\<close>

subsection \<open>Exceptions\<close>

datatype exn =
    ValueError
  | OverflowError
  | AttributeError
  | OSError nat
  | KeyboardInterrupt

subsection \<open>Text: the \<^verbatim>\<open>int\<close> and \<^verbatim>\<open>str\<close> builtins (library)\<close>

text \<open>
  A \<open>char\<close> stands for the code point of the same number (U+0000 to U+00FF), so the
  model covers arguments written in Latin-1. In that range the decimal digits are
  \<^verbatim>\<open>0\<close> to \<^verbatim>\<open>9\<close>, and the white space that \<^verbatim>\<open>int\<close> drops around a literal is
  the set below: the six ASCII characters of C's \<^verbatim>\<open>isspace\<close>, U+0085 and U+00A0. The
  separators U+001C to U+001F, which \<^verbatim>\<open>str.isspace\<close> accepts, are not dropped:
  \<^verbatim>\<open>int("\x1c80")\<close> raises \<^verbatim>\<open>ValueError\<close>.
\<close>

definition is_digit :: "char \<Rightarrow> bool" where
  "is_digit c \<longleftrightarrow> (48::nat) \<le> of_char c \<and> of_char c \<le> (57::nat)"

definition digit_val :: "char \<Rightarrow> nat" where
  "digit_val c = of_char c - 48"

definition digit_char :: "nat \<Rightarrow> char" where
  "digit_char d = char_of (48 + d)"

definition is_space :: "char \<Rightarrow> bool" where
  "is_space c \<longleftrightarrow>
     (of_char c :: nat) \<in> {9, 10, 11, 12, 13, 32, 133, 160}"

definition strip :: "string \<Rightarrow> string" where
  "strip s = rev (dropWhile is_space (rev (dropWhile is_space s)))"

text \<open>
  The digits of a decimal literal: a digit, then digits, each optionally preceded by one
  underscore (\<^verbatim>\<open>int("8_080") == 8080\<close>; \<^verbatim>\<open>"8__0"\<close>, \<^verbatim>\<open>"_8"\<close> and \<^verbatim>\<open>"8_"\<close> are
  rejected). \<open>acc\<close> is the value read so far.
\<close>

fun parse_digits :: "nat \<Rightarrow> string \<Rightarrow> nat option" where
  "parse_digits acc [] = Some acc"
| "parse_digits acc [c] = (if is_digit c then Some (10 * acc + digit_val c) else None)"
| "parse_digits acc (c # d # r) =
     (if is_digit c then parse_digits (10 * acc + digit_val c) (d # r)
      else if c = CHR ''_'' \<and> is_digit d then parse_digits (10 * acc + digit_val d) r
      else None)"

definition parse_decimal :: "string \<Rightarrow> nat option" where
  "parse_decimal s =
     (case s of
        [] \<Rightarrow> None
      | c # r \<Rightarrow> if is_digit c then parse_digits (digit_val c) r else None)"

text \<open>
  \<^verbatim>\<open>int(s)\<close> for a string, base ten: white space around the literal is dropped, one
  sign is allowed directly before the digits, and anything else raises
  \<^verbatim>\<open>ValueError\<close>. CPython 3.11 also refuses literals of more than 4300 digits
  (\<^verbatim>\<open>sys.get_int_max_str_digits()\<close>).
\<close>

definition max_str_digits :: nat where
  "max_str_digits = 4300"

definition py_int :: "string \<Rightarrow> exn + int" where
  "py_int s =
     (let t = strip s;
          neg = (case t of [] \<Rightarrow> False | c # _ \<Rightarrow> c = CHR ''-'');
          u = (case t of [] \<Rightarrow> [] | c # r \<Rightarrow> if c = CHR ''-'' \<or> c = CHR ''+'' then r else t)
      in if max_str_digits < length (filter is_digit u) then Inl ValueError
         else case parse_decimal u of
                None \<Rightarrow> Inl ValueError
              | Some n \<Rightarrow> Inr (if neg then - int n else int n))"

text \<open>\<^verbatim>\<open>str(n)\<close> for an integer, which is also what an f-string field \<^verbatim>\<open>{n}\<close> renders.\<close>

fun str_nat :: "nat \<Rightarrow> string" where
  "str_nat n = (if n < 10 then [digit_char n] else str_nat (n div 10) @ [digit_char (n mod 10)])"

declare str_nat.simps [simp del]

definition str_int :: "int \<Rightarrow> string" where
  "str_int i = (if i < 0 then CHR ''-'' # str_nat (nat (- i)) else str_nat (nat i))"

text \<open>
  \<^verbatim>\<open>str.lower\<close> as far as a comparison with an ASCII word can tell: within Latin-1 only
  the letters \<^verbatim>\<open>A\<close> to \<^verbatim>\<open>Z\<close> become ASCII letters.
\<close>

definition lower_char :: "char \<Rightarrow> char" where
  "lower_char c =
     (if (65::nat) \<le> of_char c \<and> of_char c \<le> (90::nat) then char_of (of_char c + (32::nat)) else c)"

definition lower :: "string \<Rightarrow> string" where
  "lower s = map lower_char s"

subsection \<open>The request handler's header buffer (library, \<^verbatim>\<open>http/server.py\<close>)\<close>

definition CRLF :: string where
  "CRLF = [CHR 0x0D, CHR 0x0A]"

text \<open>
  The attributes of a \<^verbatim>\<open>BaseHTTPRequestHandler\<close> that the header methods read or
  write. \<open>headers_buffer\<close> is \<open>None\<close> while the object has no \<^verbatim>\<open>_headers_buffer\<close>
  attribute (\<^verbatim>\<open>hasattr\<close> is false). \<open>wfile\<close> is the unbuffered socket writer
  (\<^verbatim>\<open>wbufsize = 0\<close>): the payloads of the \<^verbatim>\<open>write\<close> calls made so far, in call order;
  their concatenation is what the client receives. A write is taken to succeed.
\<close>

record handler =
  request_version :: string
  protocol_version :: string
  responses :: "int \<Rightarrow> string option"
  headers_buffer :: "string list option"
  wfile :: "string list"
  close_connection :: bool

definition wfile_write :: "handler \<Rightarrow> string \<Rightarrow> handler" where
  "wfile_write h b = h\<lparr>wfile := wfile h @ [b]\<rparr>"

definition buffer_append :: "handler \<Rightarrow> string \<Rightarrow> handler" where
  "buffer_append h b =
     h\<lparr>headers_buffer := Some ((case headers_buffer h of None \<Rightarrow> [] | Some buf \<Rightarrow> buf) @ [b])\<rparr>"

definition send_response_only :: "handler \<Rightarrow> int \<Rightarrow> string option \<Rightarrow> handler" where
  "send_response_only h code message =
     (if request_version h \<noteq> ''HTTP/0.9'' then
        let m = (case message of
                   Some m \<Rightarrow> m
                 | None \<Rightarrow> (case responses h code of Some m \<Rightarrow> m | None \<Rightarrow> []))
        in buffer_append h (protocol_version h @ '' '' @ str_int code @ '' '' @ m @ CRLF)
      else h)"

definition send_header :: "handler \<Rightarrow> string \<Rightarrow> string \<Rightarrow> handler" where
  "send_header h keyword v =
     (let h1 = (if request_version h \<noteq> ''HTTP/0.9''
                then buffer_append h (keyword @ '': '' @ v @ CRLF) else h)
      in if lower keyword = ''connection'' then
           (if lower v = ''close'' then h1\<lparr>close_connection := True\<rparr>
            else if lower v = ''keep-alive'' then h1\<lparr>close_connection := False\<rparr>
            else h1)
         else h1)"

text \<open>
  \<^verbatim>\<open>send_response\<close> also logs the request, on standard error. \<open>version\<close> and \<open>date\<close> are
  the values of \<^verbatim>\<open>version_string()\<close> and \<^verbatim>\<open>date_time_string()\<close>.
\<close>

definition send_response :: "handler \<Rightarrow> string \<Rightarrow> string \<Rightarrow> int \<Rightarrow> string option \<Rightarrow> handler" where
  "send_response h version date code message =
     send_header (send_header (send_response_only h code message) ''Server'' version) ''Date'' date"

definition flush_headers :: "handler \<Rightarrow> handler" where
  "flush_headers h =
     (case headers_buffer h of
        None \<Rightarrow> h
      | Some buf \<Rightarrow> (wfile_write h (concat buf))\<lparr>headers_buffer := Some []\<rparr>)"

text \<open>
  \<^verbatim>\<open>BaseHTTPRequestHandler.end_headers\<close>, the method the script's override calls through
  \<^verbatim>\<open>super()\<close>. Appending to a missing buffer raises \<^verbatim>\<open>AttributeError\<close>.
\<close>

definition base_end_headers :: "handler \<Rightarrow> exn + handler" where
  "base_end_headers h =
     (if request_version h \<noteq> ''HTTP/0.9'' then
        (case headers_buffer h of
           None \<Rightarrow> Inl AttributeError
         | Some buf \<Rightarrow> Inr (flush_headers (h\<lparr>headers_buffer := Some (buf @ [CRLF])\<rparr>)))
      else Inr h)"

subsection \<open>\<^verbatim>\<open>Handler.end_headers\<close> (script, lines 10 to 14)\<close>

definition COOP_line :: string where
  "COOP_line = ''Cross-Origin-Opener-Policy: same-origin''"

definition COEP_line :: string where
  "COEP_line = ''Cross-Origin-Embedder-Policy: require-corp''"

definition end_headers :: "handler \<Rightarrow> exn + handler" where
  "end_headers h =
     base_end_headers (wfile_write (wfile_write h (COOP_line @ CRLF)) (COEP_line @ CRLF))"

subsection \<open>Emitting a response\<close>

text \<open>
  Every response of the library (\<^verbatim>\<open>send_error\<close>, and \<^verbatim>\<open>send_head\<close> followed by
  \<^verbatim>\<open>copyfile\<close>) is produced by one call sequence on a handler object made for the
  request: \<^verbatim>\<open>send_response\<close>, some \<^verbatim>\<open>send_header\<close> calls, \<^verbatim>\<open>end_headers\<close> (here the
  script's override), then the body. \<open>respond\<close> is that sequence.
\<close>

definition new_handler :: "string \<Rightarrow> (int \<Rightarrow> string option) \<Rightarrow> handler" where
  "new_handler version table =
     \<lparr>request_version = version, protocol_version = ''HTTP/1.0'', responses = table,
      headers_buffer = None, wfile = [], close_connection = True\<rparr>"

definition send_headers :: "handler \<Rightarrow> (string \<times> string) list \<Rightarrow> handler" where
  "send_headers h hdrs = fold (\<lambda>(k, v) h'. send_header h' k v) hdrs h"

definition respond ::
  "handler \<Rightarrow> string \<Rightarrow> string \<Rightarrow> int \<Rightarrow> string option \<Rightarrow> (string \<times> string) list \<Rightarrow> string
     \<Rightarrow> exn + handler" where
  "respond h version date code message hdrs body =
     (case end_headers (send_headers (send_response h version date code message) hdrs) of
        Inl e \<Rightarrow> Inl e
      | Inr h' \<Rightarrow> Inr (if body = [] then h' else wfile_write h' body))"

definition sent :: "exn + handler \<Rightarrow> string" where
  "sent r = (case r of Inl e \<Rightarrow> [] | Inr h \<Rightarrow> concat (wfile h))"

text \<open>
  How a client reads the bytes of an HTTP/1.x response: lines end with CR LF, the first
  line is the status line, and the header block is the lines after it up to the first
  empty line.
\<close>

fun split_crlf :: "string \<Rightarrow> string \<Rightarrow> string list" where
  "split_crlf cur [] = [cur]"
| "split_crlf cur [c] = [cur @ [c]]"
| "split_crlf cur (c # d # r) =
     (if c = CHR 0x0D \<and> d = CHR 0x0A then cur # split_crlf [] r
      else split_crlf (cur @ [c]) (d # r))"

definition start_line :: "string \<Rightarrow> string" where
  "start_line bytes = (case split_crlf [] bytes of [] \<Rightarrow> [] | l # _ \<Rightarrow> l)"

definition header_lines :: "string \<Rightarrow> string list" where
  "header_lines bytes =
     (case split_crlf [] bytes of [] \<Rightarrow> [] | _ # ls \<Rightarrow> takeWhile (\<lambda>l. l \<noteq> []) ls)"

subsection \<open>The listening socket (library and operating system)\<close>

text \<open>
  The \<^verbatim>\<open>socket\<close> module reads the host of an IPv4 address: the empty string is
  \<^verbatim>\<open>INADDR_ANY\<close>, the wildcard address of every interface of the machine;
  \<^verbatim>\<open><broadcast>\<close> is \<^verbatim>\<open>INADDR_BROADCAST\<close>; any other name is resolved.
\<close>

datatype bind_host = INADDR_ANY | INADDR_BROADCAST | Host string

definition setipaddr :: "string \<Rightarrow> bind_host" where
  "setipaddr name =
     (if name = [] then INADDR_ANY
      else if name = ''<broadcast>'' \<or> name = ''255.255.255.255'' then INADDR_BROADCAST
      else Host name)"

text \<open>
  What the operating system answers: \<open>bind_errno a p\<close> is the error of \<^verbatim>\<open>bind(2)\<close> for
  address \<open>a\<close> and port \<open>p\<close> (\<open>None\<close> when it succeeds), \<open>listen_errno\<close> that of
  \<^verbatim>\<open>listen(2)\<close>, and \<open>ephemeral_port\<close> the port the kernel picks when port 0 is asked
  for. Creating the socket is taken to succeed.
\<close>

record os_env =
  bind_errno :: "bind_host \<Rightarrow> int \<Rightarrow> nat option"
  listen_errno :: "nat option"
  ephemeral_port :: int

text \<open>
  \<^verbatim>\<open>socket.bind\<close> followed by \<^verbatim>\<open>socket.getsockname\<close>, as \<^verbatim>\<open>TCPServer.server_bind\<close>
  calls them. A port outside 0 to 65535 raises \<^verbatim>\<open>OverflowError\<close> before the operating
  system is asked. The result is the name of the bound socket.
\<close>

definition server_bind :: "os_env \<Rightarrow> string \<times> int \<Rightarrow> exn + bind_host \<times> int" where
  "server_bind os addr =
     (let host = fst addr; port = snd addr in
      if port < 0 \<or> 65535 < port then Inl OverflowError
      else case bind_errno os (setipaddr host) port of
             Some e \<Rightarrow> Inl (OSError e)
           | None \<Rightarrow> Inr (setipaddr host, if port = 0 then ephemeral_port os else port))"

definition server_activate :: "os_env \<Rightarrow> exn + unit" where
  "server_activate os = (case listen_errno os of Some e \<Rightarrow> Inl (OSError e) | None \<Rightarrow> Inr ())"

text \<open>
  The server object: the address of its socket and the private flag
  \<^verbatim>\<open>__shutdown_request\<close>, which only the method \<^verbatim>\<open>shutdown()\<close> sets.
  \<^verbatim>\<open>TCPServer.__init__\<close> binds and activates; when either raises, it closes the socket
  and raises the same exception again.
\<close>

record tcp_server =
  server_address :: "bind_host \<times> int"
  shutdown_request :: bool

definition TCPServer :: "os_env \<Rightarrow> string \<times> int \<Rightarrow> exn + tcp_server" where
  "TCPServer os addr =
     (case server_bind os addr of
        Inl e \<Rightarrow> Inl e
      | Inr name \<Rightarrow>
          (case server_activate os of
             Inl e \<Rightarrow> Inl e
           | Inr _ \<Rightarrow> Inr \<lparr>server_address = name, shutdown_request = False\<rparr>))"

subsection \<open>Startup (script, lines 16 to 18)\<close>

definition PORT :: "string list \<Rightarrow> exn + int" where
  "PORT argv = (if 1 < length argv then py_int (argv ! 1) else Inr 8080)"

text \<open>
  What the script has done when it reaches the call of \<^verbatim>\<open>serve_forever\<close>, or when an
  exception has left it before: the addresses it passed to the listener
  (\<open>bind_requests\<close>), the text on standard output, and where it stands.
\<close>

datatype outcome = Uncaught exn | Serving tcp_server

record run =
  bind_requests :: "(string \<times> int) list"
  stdout :: string
  outcome :: outcome

definition announcement :: "int \<Rightarrow> string" where
  "announcement port = ''Serving on http://localhost:'' @ str_int port"

definition startup :: "string list \<Rightarrow> os_env \<Rightarrow> run" where
  "startup argv os =
     (case PORT argv of
        Inl e \<Rightarrow> \<lparr>bind_requests = [], stdout = [], outcome = Uncaught e\<rparr>
      | Inr port \<Rightarrow>
          (case TCPServer os ([], port) of
             Inl e \<Rightarrow> \<lparr>bind_requests = [([], port)], stdout = [], outcome = Uncaught e\<rparr>
           | Inr httpd \<Rightarrow>
               \<lparr>bind_requests = [([], port)],
                stdout = announcement port @ [CHR 0x0A],
                outcome = Serving httpd\<rparr>))"

subsection \<open>The serving loop (library, \<^verbatim>\<open>socketserver.py\<close>; script, line 19)\<close>

text \<open>
  One pass of the loop of \<^verbatim>\<open>serve_forever\<close>, seen from outside: \<^verbatim>\<open>select\<close> times out,
  or reports a connection, or raises an exception, or a signal interrupts the process
  (\<^verbatim>\<open>KeyboardInterrupt\<close>). For a connection, \<^verbatim>\<open>get_request\<close> fails with \<^verbatim>\<open>OSError\<close>, or
  the request is processed by a new \<^verbatim>\<open>Handler\<close> object, which returns, raises an
  \<^verbatim>\<open>Exception\<close>, or is interrupted by a signal. When the handler raises an
  \<^verbatim>\<open>Exception\<close> (a failed write of its log line to standard error is one), the server
  calls \<^verbatim>\<open>handle_error\<close>, which prints a report on standard error, and then closes the
  connection: \<open>Raises_Exception None\<close> when both succeed, \<open>Raises_Exception (Some e)\<close>
  when one of them raises \<open>e\<close> (a closed standard error gives \<^verbatim>\<open>OSError\<close>).
\<close>

datatype request_result = Completes | Raises_Exception "exn option" | Interrupted

datatype accept_result = Accept_fails | Accepted request_result

datatype iteration =
    Select_timeout
  | Select_ready accept_result
  | Select_fails exn
  | Select_interrupted

text \<open>
  \<^verbatim>\<open>_handle_request_noblock\<close>: an \<^verbatim>\<open>OSError\<close> of \<^verbatim>\<open>get_request\<close> is dropped, an
  \<^verbatim>\<open>Exception\<close> of \<^verbatim>\<open>process_request\<close> goes to \<^verbatim>\<open>handle_error\<close>, anything else is
  raised again. \<^verbatim>\<open>handle_error\<close> and \<^verbatim>\<open>shutdown_request\<close> run inside the \<^verbatim>\<open>except\<close>
  clause, so an exception of their own leaves the method.
\<close>

definition handle_request_noblock :: "accept_result \<Rightarrow> exn option" where
  "handle_request_noblock a =
     (case a of
        Accept_fails \<Rightarrow> None
      | Accepted Completes \<Rightarrow> None
      | Accepted (Raises_Exception None) \<Rightarrow> None
      | Accepted (Raises_Exception (Some e)) \<Rightarrow> Some e
      | Accepted Interrupted \<Rightarrow> Some KeyboardInterrupt)"

datatype exit = Returned | Raised exn

text \<open>
  \<^verbatim>\<open>serve_forever\<close>: \<open>None\<close> is a loop that never ends, \<open>Some Returned\<close> a normal return
  (the loop saw the shutdown flag), \<open>Some (Raised e)\<close> an exception that left it.
\<close>

partial_function (option) serve_forever :: "tcp_server \<Rightarrow> iteration stream \<Rightarrow> exit option" where
  "serve_forever srv evs =
     (if shutdown_request srv then Some Returned
      else case shd evs of
             Select_interrupted \<Rightarrow> Some (Raised KeyboardInterrupt)
           | Select_fails e \<Rightarrow> Some (Raised e)
           | Select_timeout \<Rightarrow> serve_forever srv (stl evs)
           | Select_ready a \<Rightarrow>
               (case handle_request_noblock a of
                  Some e \<Rightarrow> Some (Raised e)
                | None \<Rightarrow> serve_forever srv (stl evs)))"

text \<open>
  The whole script: startup, then the loop inside the \<^verbatim>\<open>with\<close> block. When
  \<^verbatim>\<open>serve_forever\<close> returns the block ends and so does the script.
\<close>

definition script :: "string list \<Rightarrow> os_env \<Rightarrow> iteration stream \<Rightarrow> exit option" where
  "script argv os evs =
     (case outcome (startup argv os) of
        Uncaught e \<Rightarrow> Some (Raised e)
      | Serving httpd \<Rightarrow> serve_forever httpd evs)"

text \<open>A signal reaches the process in some pass of the loop.\<close>

definition interrupted :: "iteration stream \<Rightarrow> bool" where
  "interrupted evs \<longleftrightarrow>
     Select_interrupted \<in> sset evs \<or> Select_ready (Accepted Interrupted) \<in> sset evs"

text \<open>
  In some pass of the loop \<^verbatim>\<open>select\<close> raises \<open>e\<close>, or the report of a handler's
  exception raises \<open>e\<close>.
\<close>

definition environment_fails :: "iteration stream \<Rightarrow> exn \<Rightarrow> bool" where
  "environment_fails evs e \<longleftrightarrow>
     Select_fails e \<in> sset evs \<or>
     Select_ready (Accepted (Raises_Exception (Some e))) \<in> sset evs"

text \<open>The status line and the header lines as \<^verbatim>\<open>send_response_only\<close> and \<^verbatim>\<open>send_header\<close> format them.\<close>

definition status_text :: "handler \<Rightarrow> int \<Rightarrow> string option \<Rightarrow> string" where
  "status_text h code message =
     protocol_version h @ '' '' @ str_int code @ '' '' @
     (case message of Some m \<Rightarrow> m | None \<Rightarrow> (case responses h code of Some m \<Rightarrow> m | None \<Rightarrow> [])) @ CRLF"


subsection \<open>Two operating systems to run the script on\<close>

text \<open>
  \<open>os_free\<close> grants every bind and picks port 49152 when asked for port 0; \<open>os_in_use\<close>
  refuses every bind with errno 98 (\<^verbatim>\<open>EADDRINUSE\<close>).
\<close>

definition os_free :: os_env where
  "os_free = \<lparr>bind_errno = (\<lambda>a p. None), listen_errno = None, ephemeral_port = 49152\<rparr>"

definition os_in_use :: os_env where
  "os_in_use = \<lparr>bind_errno = (\<lambda>a p. Some 98), listen_errno = None, ephemeral_port = 49152\<rparr>"

section \<open>Properties\<close>

subsection \<open>Decimal text\<close>

lemma digit_char_props:
  assumes "d < 10"
  shows "is_digit (digit_char d)" and "digit_val (digit_char d) = d"
    and "\<not> is_space (digit_char d)" and "digit_char d \<noteq> CHR ''-''"
    and "digit_char d \<noteq> CHR ''+''" and "digit_char d \<noteq> CHR 0x0A"
proof -
  have m: "(48 + d) mod 256 = 48 + d" using assms by simp
  have v: "(of_char (digit_char d) :: nat) = 48 + d"
    unfolding digit_char_def by (simp add: m)
  show "is_digit (digit_char d)" using assms by (simp add: is_digit_def v)
  show "digit_val (digit_char d) = d" by (simp add: digit_val_def v)
  show "\<not> is_space (digit_char d)" using assms by (simp add: is_space_def v)
  show "digit_char d \<noteq> CHR ''-''"
  proof
    assume "digit_char d = CHR ''-''"
    then have "(of_char (digit_char d) :: nat) = of_char CHR ''-''" by simp
    then show False by (simp add: v)
  qed
  show "digit_char d \<noteq> CHR ''+''"
  proof
    assume "digit_char d = CHR ''+''"
    then have "(of_char (digit_char d) :: nat) = of_char CHR ''+''" by simp
    then show False by (simp add: v)
  qed
  show "digit_char d \<noteq> CHR 0x0A"
  proof
    assume "digit_char d = CHR 0x0A"
    then have "(of_char (digit_char d) :: nat) = of_char (CHR 0x0A)" by simp
    then show False by (simp add: v)
  qed
qed

lemma parse_digits_snoc:
  "list_all is_digit ds \<Longrightarrow> is_digit c \<Longrightarrow>
   parse_digits acc (ds @ [c]) = map_option (\<lambda>v. 10 * v + digit_val c) (parse_digits acc ds)"
  by (induction acc ds rule: parse_digits.induct) auto

lemma str_nat_digits: "list_all is_digit (str_nat n)"
  by (induction n rule: str_nat.induct) (subst str_nat.simps, auto simp: digit_char_props)

lemma str_nat_nonempty: "str_nat n \<noteq> []"
  by (subst str_nat.simps) simp

lemma parse_str_nat: "parse_digits 0 (str_nat n) = Some n"
proof (induction n rule: str_nat.induct)
  case (1 n)
  show ?case
  proof (cases "n < 10")
    case True
    then show ?thesis by (subst str_nat.simps) (simp add: digit_char_props)
  next
    case False
    then have ih: "parse_digits 0 (str_nat (n div 10)) = Some (n div 10)" using 1 by simp
    have d: "is_digit (digit_char (n mod 10))" by (simp add: digit_char_props)
    show ?thesis
      using False
      by (subst str_nat.simps)
         (simp add: parse_digits_snoc [OF str_nat_digits d] ih digit_char_props)
  qed
qed

lemma str_nat_length: "n < 10 ^ k \<Longrightarrow> 0 < k \<Longrightarrow> length (str_nat n) \<le> k"
proof (induction n arbitrary: k rule: str_nat.induct)
  case (1 n)
  show ?case
  proof (cases "n < 10")
    case True
    then show ?thesis using "1.prems" by (subst str_nat.simps) simp
  next
    case False
    obtain j where k: "k = Suc j" using "1.prems"(2) by (cases k) auto
    have "j \<noteq> 0" using False "1.prems"(1) k by (cases j) auto
    moreover have "n div 10 < 10 ^ j" using "1.prems"(1) k by (simp add: less_mult_imp_div_less)
    ultimately have "length (str_nat (n div 10)) \<le> j" using "1.IH" [OF False, of j] by simp
    then show ?thesis using False k by (subst str_nat.simps) simp
  qed
qed

lemma strip_digits:
  assumes "list_all is_digit s"
  shows "strip s = s"
proof -
  have ns: "\<not> is_space c" if "is_digit c" for c
    using that by (auto simp: is_digit_def is_space_def)
  have a: "dropWhile is_space t = t" if "list_all is_digit t" for t
    using that ns by (cases t) auto
  have "list_all is_digit (rev s)" using assms by (simp add: list_all_iff)
  then show ?thesis using assms by (simp add: strip_def a)
qed

lemma digit_not_sign: "is_digit c \<Longrightarrow> c \<noteq> CHR ''-'' \<and> c \<noteq> CHR ''+''"
  by (auto simp: is_digit_def)

lemma parse_decimal_digits:
  "s \<noteq> [] \<Longrightarrow> list_all is_digit s \<Longrightarrow> parse_decimal s = parse_digits 0 s"
  by (cases s; cases "tl s") (auto simp: parse_decimal_def)

lemma py_int_str_nat:
  assumes "length (str_nat n) \<le> max_str_digits"
  shows "py_int (str_nat n) = Inr (int n)"
proof -
  obtain c r where s: "str_nat n = c # r" using str_nat_nonempty [of n] by (cases "str_nat n") auto
  have dg: "list_all is_digit (c # r)" using str_nat_digits [of n] s by simp
  then have c: "c \<noteq> CHR ''-''" "c \<noteq> CHR ''+''" using digit_not_sign [of c] by auto
  have st: "strip (c # r) = c # r" using strip_digits [OF dg] .
  have f: "filter is_digit (c # r) = c # r" using dg by (simp add: list_all_iff filter_id_conv)
  have p: "parse_decimal (c # r) = Some n"
    using parse_decimal_digits [OF _ dg] parse_str_nat [of n] s by simp
  have len: "\<not> max_str_digits < length (c # r)" using assms s by simp
  show ?thesis
    unfolding py_int_def s st Let_def using c p len f by simp
qed

lemma py_int_port:
  assumes "0 \<le> P" "P \<le> 65535"
  shows "py_int (str_int P) = Inr P"
proof -
  have "nat P < 10 ^ 5" using assms by simp
  then have "length (str_nat (nat P)) \<le> 5" by (rule str_nat_length) simp
  then have "length (str_nat (nat P)) \<le> max_str_digits" by (simp add: max_str_digits_def)
  then show ?thesis using assms py_int_str_nat [of "nat P"] by (simp add: str_int_def)
qed


subsection \<open>The bytes of a response\<close>

lemma end_headers_buffered:
  "request_version h \<noteq> ''HTTP/0.9'' \<Longrightarrow> headers_buffer h = Some buf \<Longrightarrow>
   end_headers h =
     Inr (h\<lparr>wfile := wfile h @ [COOP_line @ CRLF, COEP_line @ CRLF, concat buf @ CRLF],
            headers_buffer := Some []\<rparr>)"
  by (simp add: end_headers_def base_end_headers_def flush_headers_def wfile_write_def)

lemma send_header_version [simp]: "request_version (send_header h k v) = request_version h"
  by (simp add: send_header_def buffer_append_def Let_def)

lemma send_header_wfile [simp]: "wfile (send_header h k v) = wfile h"
  by (simp add: send_header_def buffer_append_def Let_def)

lemma send_header_buffer:
  "headers_buffer (send_header h k v) =
     (if request_version h \<noteq> ''HTTP/0.9''
      then Some ((case headers_buffer h of None \<Rightarrow> [] | Some buf \<Rightarrow> buf) @ [k @ '': '' @ v @ CRLF])
      else headers_buffer h)"
  by (simp add: send_header_def buffer_append_def Let_def)

lemma send_headers_version [simp]: "request_version (send_headers h hdrs) = request_version h"
  unfolding send_headers_def by (induction hdrs arbitrary: h) auto

lemma send_headers_wfile [simp]: "wfile (send_headers h hdrs) = wfile h"
  unfolding send_headers_def by (induction hdrs arbitrary: h) auto

lemma send_headers_buffer:
  "request_version h \<noteq> ''HTTP/0.9'' \<Longrightarrow> headers_buffer h = Some buf \<Longrightarrow>
   headers_buffer (send_headers h hdrs) = Some (buf @ map (\<lambda>(k, v). k @ '': '' @ v @ CRLF) hdrs)"
  unfolding send_headers_def
  by (induction hdrs arbitrary: h buf) (auto simp: send_header_buffer)

lemma send_response_props:
  "request_version (send_response h sv d code m) = request_version h"
  "wfile (send_response h sv d code m) = wfile h"
  by (simp_all add: send_response_def send_response_only_def buffer_append_def Let_def)

lemma send_response_buffer:
  "request_version h \<noteq> ''HTTP/0.9'' \<Longrightarrow>
   headers_buffer (send_response h sv d code m) =
     Some ((case headers_buffer h of None \<Rightarrow> [] | Some buf \<Rightarrow> buf) @
           [status_text h code m, ''Server: '' @ sv @ CRLF, ''Date: '' @ d @ CRLF])"
  by (simp add: send_response_def send_response_only_def send_header_buffer buffer_append_def
      status_text_def Let_def)

lemma respond_sent:
  assumes "request_version h \<noteq> ''HTTP/0.9''"
  shows "sent (respond h sv d code m hdrs body) =
           concat (wfile h) @ COOP_line @ CRLF @ COEP_line @ CRLF @
           concat (case headers_buffer h of None \<Rightarrow> [] | Some buf \<Rightarrow> buf) @
           status_text h code m @ ''Server: '' @ sv @ CRLF @ ''Date: '' @ d @ CRLF @
           concat (map (\<lambda>(k, v). k @ '': '' @ v @ CRLF) hdrs) @ CRLF @ body"
proof -
  let ?h1 = "send_response h sv d code m"
  have v1: "request_version ?h1 \<noteq> ''HTTP/0.9''" using assms by (simp add: send_response_props)
  have b: "headers_buffer (send_headers ?h1 hdrs) =
      Some (((case headers_buffer h of None \<Rightarrow> [] | Some buf \<Rightarrow> buf) @
           [status_text h code m, ''Server: '' @ sv @ CRLF, ''Date: '' @ d @ CRLF]) @
           map (\<lambda>(k, v). k @ '': '' @ v @ CRLF) hdrs)"
    by (rule send_headers_buffer [OF v1 send_response_buffer [OF assms]])
  show ?thesis
    using v1
    by (simp add: respond_def sent_def end_headers_buffered [OF _ b] send_response_props
        wfile_write_def)
qed

lemma split_crlf_line:
  "CHR 0x0D \<notin> set l \<Longrightarrow> split_crlf cur (l @ CRLF @ rest) = (cur @ l) # split_crlf [] rest"
proof (induction l arbitrary: cur)
  case Nil
  then show ?case by (simp add: CRLF_def)
next
  case (Cons c l)
  then show ?case by (cases "l @ CRLF @ rest") (auto simp: CRLF_def)
qed

lemma COOP_no_CR: "CHR 0x0D \<notin> set COOP_line"
  by (simp add: COOP_line_def)

subsection \<open>Startup and the serving loop\<close>

lemma py_int_error: "py_int s = Inl e \<Longrightarrow> e = ValueError"
  by (auto simp: py_int_def Let_def split: if_splits option.splits)

lemma PORT_arg: "PORT (prog # s # rest) = py_int s"
  by (simp add: PORT_def)

lemma PORT_default: "PORT [prog] = Inr 8080"
  by (simp add: PORT_def)

lemma TCPServer_granted:
  "0 \<le> p \<Longrightarrow> p \<le> 65535 \<Longrightarrow> bind_errno os (setipaddr host) p = None \<Longrightarrow> listen_errno os = None \<Longrightarrow>
   TCPServer os (host, p) =
     Inr \<lparr>server_address = (setipaddr host, if p = 0 then ephemeral_port os else p),
          shutdown_request = False\<rparr>"
  by (simp add: TCPServer_def server_bind_def server_activate_def)

lemma TCPServer_fresh: "TCPServer os addr = Inr httpd \<Longrightarrow> \<not> shutdown_request httpd"
  by (auto simp: TCPServer_def split: sum.splits)

lemma TCPServer_address:
  "TCPServer os (host, p) = Inr httpd \<Longrightarrow>
   server_address httpd = (setipaddr host, if p = 0 then ephemeral_port os else p)"
  by (auto simp: TCPServer_def server_bind_def Let_def split: sum.splits if_splits option.splits)

lemma startup_bind_requests:
  "bind_requests (startup argv os) = (case PORT argv of Inl e \<Rightarrow> [] | Inr p \<Rightarrow> [([], p)])"
  by (simp add: startup_def split: sum.splits)

lemma startup_Serving:
  "outcome (startup argv os) = Serving httpd \<longleftrightarrow>
     (\<exists>p. PORT argv = Inr p \<and> TCPServer os ([], p) = Inr httpd)"
  by (auto simp: startup_def split: sum.splits)

lemma startup_stdout:
  "stdout (startup argv os) =
     (case outcome (startup argv os) of
        Uncaught e \<Rightarrow> []
      | Serving httpd \<Rightarrow> (case PORT argv of Inl e \<Rightarrow> [] | Inr p \<Rightarrow> announcement p @ [CHR 0x0A]))"
  by (simp add: startup_def split: sum.splits)

lemma str_nat_no_LF: "CHR 0x0A \<notin> set (str_nat n)"
proof
  assume "CHR 0x0A \<in> set (str_nat n)"
  then have "is_digit (CHR 0x0A)" using str_nat_digits [of n] by (simp add: list_all_iff)
  then show False by (simp add: is_digit_def)
qed

lemma announcement_no_LF: "CHR 0x0A \<notin> set (announcement p)"
  by (simp add: announcement_def str_int_def str_nat_no_LF)

lemma count_LF: "CHR 0x0A \<notin> set l \<Longrightarrow> length (filter (\<lambda>c. c = CHR 0x0A) (l @ [CHR 0x0A])) = 1"
  by (auto simp: filter_empty_conv)

lemma interrupted_stl: "interrupted (stl evs) \<Longrightarrow> interrupted evs"
  by (auto simp: interrupted_def dest: stl_sset)

lemma environment_fails_stl: "environment_fails (stl evs) n \<Longrightarrow> environment_fails evs n"
  by (auto simp: environment_fails_def dest: stl_sset)

lemma handle_request_noblock_raises:
  "handle_request_noblock a = Some e \<Longrightarrow>
     (a = Accepted Interrupted \<and> e = KeyboardInterrupt) \<or>
     a = Accepted (Raises_Exception (Some e))"
  by (auto simp: handle_request_noblock_def
      split: accept_result.splits request_result.splits option.splits)

text \<open>
  Partial correctness of the loop, by the induction rule of its definition: when it
  ends, it ends on the shutdown flag, on a signal, or on an exception of \<^verbatim>\<open>select\<close> or
  of the error report.
\<close>

lemma serve_forever_returns:
  assumes "serve_forever srv evs = Some r"
  shows "(shutdown_request srv \<and> r = Returned) \<or>
         (\<not> shutdown_request srv \<and>
            ((r = Raised KeyboardInterrupt \<and> interrupted evs) \<or>
             (\<exists>e. r = Raised e \<and> environment_fails evs e)))"
proof (rule serve_forever.raw_induct
    [where P = "\<lambda>srv evs r. (shutdown_request srv \<and> r = Returned) \<or>
         (\<not> shutdown_request srv \<and>
            ((r = Raised KeyboardInterrupt \<and> interrupted evs) \<or>
             (\<exists>e. r = Raised e \<and> environment_fails evs e)))", OF _ assms])
  fix f :: "tcp_server \<Rightarrow> iteration stream \<Rightarrow> exit option" and srv evs r
  assume IH: "\<And>srv evs r. f srv evs = Some r \<Longrightarrow>
      (shutdown_request srv \<and> r = Returned) \<or>
      (\<not> shutdown_request srv \<and>
         ((r = Raised KeyboardInterrupt \<and> interrupted evs) \<or>
          (\<exists>e. r = Raised e \<and> environment_fails evs e)))"
  assume eq: "(if shutdown_request srv then Some Returned
      else case shd evs of
             Select_timeout \<Rightarrow> f srv (stl evs)
           | Select_ready a \<Rightarrow>
               (case handle_request_noblock a of
                  None \<Rightarrow> f srv (stl evs)
                | Some e \<Rightarrow> Some (Raised e))
           | Select_fails e \<Rightarrow> Some (Raised e)
           | Select_interrupted \<Rightarrow> Some (Raised KeyboardInterrupt)) = Some r"
  have hd: "shd evs \<in> sset evs" by (rule shd_sset)
  show "(shutdown_request srv \<and> r = Returned) \<or>
        (\<not> shutdown_request srv \<and>
           ((r = Raised KeyboardInterrupt \<and> interrupted evs) \<or>
            (\<exists>e. r = Raised e \<and> environment_fails evs e)))"
  proof (cases "shutdown_request srv")
    case True
    then show ?thesis using eq by simp
  next
    case False
    show ?thesis
    proof (cases "shd evs")
      case Select_timeout
      then have "f srv (stl evs) = Some r" using eq False by simp
      from IH [OF this] show ?thesis
        using False interrupted_stl [of evs] environment_fails_stl [of evs] by blast
    next
      case (Select_ready a)
      show ?thesis
      proof (cases "handle_request_noblock a")
        case None
        then have "f srv (stl evs) = Some r" using eq False Select_ready by simp
        from IH [OF this] show ?thesis
          using False interrupted_stl [of evs] environment_fails_stl [of evs] by blast
      next
        case (Some e)
        have r: "r = Raised e" using eq False Select_ready Some by simp
        from handle_request_noblock_raises [OF Some] show ?thesis
        proof
          assume "a = Accepted Interrupted \<and> e = KeyboardInterrupt"
          then show ?thesis using False hd Select_ready r by (auto simp: interrupted_def)
        next
          assume "a = Accepted (Raises_Exception (Some e))"
          then show ?thesis
            using False hd Select_ready r by (auto simp: environment_fails_def)
        qed
      qed
    next
      case (Select_fails e)
      then have "r = Raised e" using eq False by simp
      then show ?thesis using False hd Select_fails by (auto simp: environment_fails_def)
    next
      case Select_interrupted
      then have "r = Raised KeyboardInterrupt" using eq False by simp
      then show ?thesis using False hd Select_interrupted by (auto simp: interrupted_def)
    qed
  qed
qed

lemma py_int_examples:
  "py_int ''0'' = Inr 0" "py_int ''-1'' = Inr (- 1)" "py_int ''abc'' = Inl ValueError"
  "py_int ''3000'' = Inr 3000"
  by code_simp+

text \<open>
  White space around the literal: U+00A0 and U+0085 are dropped, the separator U+001C
  is not, so \<^verbatim>\<open>int\<close> rejects an argument that begins with it.
\<close>

lemma py_int_white_space:
  "py_int [CHR 0xA0, CHR ''8'', CHR ''0'', CHR 0x85, CHR 0x0A] = Inr 80"
  "py_int [CHR 0x1C, CHR ''8'', CHR ''0''] = Inl ValueError"
  "py_int [CHR ''8'', CHR ''0'', CHR 0x1F] = Inl ValueError"
  by code_simp+

lemma str_int_examples: "str_int 0 = ''0''" "str_int 3000 = ''3000''" "str_int 8080 = ''8080''"
  by code_simp+

section \<open>The claims\<close>

subsection \<open>C1 and C2: the two header lines\<close>

text \<open>
  What one call of the override does to the handler: two writes on the socket, then
  the library's \<^verbatim>\<open>end_headers\<close>, whose only write is the buffered block (status line,
  headers, blank line); for an HTTP/0.9 request the library writes nothing, and a handler
  without a buffer raises \<^verbatim>\<open>AttributeError\<close> in the library call.
\<close>

lemma end_headers_effect:
  "end_headers h =
     (if request_version h = ''HTTP/0.9'' then
        Inr (h\<lparr>wfile := wfile h @ [COOP_line @ CRLF, COEP_line @ CRLF]\<rparr>)
      else case headers_buffer h of
             None \<Rightarrow> Inl AttributeError
           | Some buf \<Rightarrow>
               Inr (h\<lparr>wfile := wfile h @ [COOP_line @ CRLF, COEP_line @ CRLF, concat buf @ CRLF],
                      headers_buffer := Some []\<rparr>))"
  by (simp add: end_headers_def base_end_headers_def flush_headers_def wfile_write_def
      split: option.splits)

text \<open>
  C2. Whenever the header block of a response is finalized, exactly two extra header
  lines are written, first \<^verbatim>\<open>Cross-Origin-Opener-Policy: same-origin\<close> CR LF, then
  \<^verbatim>\<open>Cross-Origin-Embedder-Policy: require-corp\<close> CR LF, immediately before the block
  is finalized, that is, before the blank line that ends it. The script does not do
  this. When \<^verbatim>\<open>end_headers\<close> runs, the status line and the headers sent so far are
  still in the library's buffer and nothing has reached the socket; the override writes
  its two lines to the socket, and only then does the library write the buffer. Below,
  the answer 304 of \<^verbatim>\<open>send_head\<close> (\<^verbatim>\<open>send_response\<close>, then \<^verbatim>\<open>end_headers\<close>): the socket is
  empty before the call, the call makes three writes, and in the bytes sent the two
  lines come before the status line; the line immediately before the blank line is the
  \<^verbatim>\<open>Date\<close> header.
\<close>

theorem end_headers_writes_two_lines_before_the_status_line:
  "(let h = send_response
              (new_handler ''HTTP/1.1'' (\<lambda>code. if code = 304 then Some ''Not Modified'' else None))
              ''SimpleHTTP/0.6 Python/3.11.10'' ''Wed, 04 Nov 2026 10:00:00 GMT'' 304 None;
        r = end_headers h
    in wfile h = [] \<and>
       map_sum id wfile r =
         Inr [COOP_line @ CRLF,
              COEP_line @ CRLF,
              ''HTTP/1.0 304 Not Modified'' @ CRLF @
              ''Server: SimpleHTTP/0.6 Python/3.11.10'' @ CRLF @
              ''Date: Wed, 04 Nov 2026 10:00:00 GMT'' @ CRLF @ CRLF] \<and>
       split_crlf [] (sent r) =
         [''Cross-Origin-Opener-Policy: same-origin'',
          ''Cross-Origin-Embedder-Policy: require-corp'',
          ''HTTP/1.0 304 Not Modified'',
          ''Server: SimpleHTTP/0.6 Python/3.11.10'',
          ''Date: Wed, 04 Nov 2026 10:00:00 GMT'',
          [], []])"
  by code_simp

text \<open>
  C1. For every HTTP response the server emits, the response headers contain the line
  \<^verbatim>\<open>Cross-Origin-Opener-Policy: same-origin\<close> and the line
  \<^verbatim>\<open>Cross-Origin-Embedder-Policy: require-corp\<close>. The script does not deliver this:
  the library keeps the status line and the headers in a buffer until its
  \<^verbatim>\<open>end_headers\<close> runs, and the override writes its two lines to the socket before
  that. Below, the answer 200 to a \<^verbatim>\<open>GET\<close> of a two-byte file, as the client receives
  it: the first line, where the status line belongs, is the COOP line, the status line
  comes third, and the COOP line is not in the header block.
\<close>

theorem response_starts_with_the_two_lines:
  "(let out = sent (respond (new_handler ''HTTP/1.1'' (\<lambda>code. None))
                ''SimpleHTTP/0.6 Python/3.11.10'' ''Wed, 04 Nov 2026 10:00:00 GMT''
                200 (Some ''OK'')
                [(''Content-type'', ''text/html''), (''Content-Length'', ''2'')] ''hi'')
    in out =
         ''Cross-Origin-Opener-Policy: same-origin'' @ CRLF @
         ''Cross-Origin-Embedder-Policy: require-corp'' @ CRLF @
         ''HTTP/1.0 200 OK'' @ CRLF @
         ''Server: SimpleHTTP/0.6 Python/3.11.10'' @ CRLF @
         ''Date: Wed, 04 Nov 2026 10:00:00 GMT'' @ CRLF @
         ''Content-type: text/html'' @ CRLF @
         ''Content-Length: 2'' @ CRLF @ CRLF @ ''hi'' \<and>
       start_line out = COOP_line \<and>
       COOP_line \<notin> set (header_lines out))"
  by code_simp

text \<open>
  The same holds for every status code, header list and body: the bytes of a response
  to an HTTP/1.x request begin with the two lines, and the status line follows them.
\<close>

lemma every_response_starts_with_the_two_lines:
  assumes "version \<noteq> ''HTTP/0.9''"
  shows "sent (respond (new_handler version table) sv d code m hdrs body) =
           COOP_line @ CRLF @ COEP_line @ CRLF @
           status_text (new_handler version table) code m @
           ''Server: '' @ sv @ CRLF @ ''Date: '' @ d @ CRLF @
           concat (map (\<lambda>(k, v). k @ '': '' @ v @ CRLF) hdrs) @ CRLF @ body"
    and "start_line (sent (respond (new_handler version table) sv d code m hdrs body)) = COOP_line"
proof -
  have v: "request_version (new_handler version table) \<noteq> ''HTTP/0.9''"
    using assms by (simp add: new_handler_def)
  show s: "sent (respond (new_handler version table) sv d code m hdrs body) =
           COOP_line @ CRLF @ COEP_line @ CRLF @
           status_text (new_handler version table) code m @
           ''Server: '' @ sv @ CRLF @ ''Date: '' @ d @ CRLF @
           concat (map (\<lambda>(k, v). k @ '': '' @ v @ CRLF) hdrs) @ CRLF @ body"
    by (simp add: respond_sent [OF v]) (simp add: new_handler_def)
  show "start_line (sent (respond (new_handler version table) sv d code m hdrs body)) = COOP_line"
    unfolding s start_line_def by (simp add: split_crlf_line [OF COOP_no_CR])
qed

subsection \<open>C3 to C6: the port argument and the listener\<close>

text \<open>
  C3. For any valid port \<open>P\<close> in 1 to 65535 passed as the sole command-line argument (in
  decimal), the server binds its TCP listener to port \<open>P\<close>; when the argument is omitted,
  it binds to port 8080. The one address the script passes to the listener is
  \<open>('', P)\<close>, respectively \<open>('', 8080)\<close>, and when the operating system grants the bind
  the socket of the server is bound to that port.
\<close>

theorem port_argument_is_bound:
  assumes "1 \<le> P" and "P \<le> 65535"
  shows "bind_requests (startup [prog, str_int P] os) = [([], P)] \<and>
         bind_requests (startup [prog] os) = [([], 8080)] \<and>
         (bind_errno os INADDR_ANY P = None \<and> listen_errno os = None \<longrightarrow>
            outcome (startup [prog, str_int P] os) =
              Serving \<lparr>server_address = (INADDR_ANY, P), shutdown_request = False\<rparr>) \<and>
         (bind_errno os INADDR_ANY 8080 = None \<and> listen_errno os = None \<longrightarrow>
            outcome (startup [prog] os) =
              Serving \<lparr>server_address = (INADDR_ANY, 8080), shutdown_request = False\<rparr>)"
proof -
  have p: "PORT [prog, str_int P] = Inr P" using assms by (simp add: PORT_arg py_int_port)
  have a: "setipaddr [] = INADDR_ANY" by (simp add: setipaddr_def)
  have g: "bind_errno os INADDR_ANY q = None \<and> listen_errno os = None \<Longrightarrow> 1 \<le> q \<Longrightarrow> q \<le> 65535
      \<Longrightarrow> TCPServer os ([], q) = Inr \<lparr>server_address = (INADDR_ANY, q), shutdown_request = False\<rparr>" for q
    using TCPServer_granted [of q os "[]"] by (simp add: a)
  have b1: "bind_requests (startup [prog, str_int P] os) = [([], P)]"
    by (simp add: startup_bind_requests p)
  have b2: "bind_requests (startup [prog] os) = [([], 8080)]"
    by (simp add: startup_bind_requests PORT_default)
  have o1: "outcome (startup [prog, str_int P] os) =
              Serving \<lparr>server_address = (INADDR_ANY, P), shutdown_request = False\<rparr>"
    if "bind_errno os INADDR_ANY P = None \<and> listen_errno os = None"
    using g [OF that assms] by (simp add: startup_def p)
  have o2: "outcome (startup [prog] os) =
              Serving \<lparr>server_address = (INADDR_ANY, 8080), shutdown_request = False\<rparr>"
    if "bind_errno os INADDR_ANY 8080 = None \<and> listen_errno os = None"
    using g [OF that] by (simp add: startup_def PORT_default)
  show ?thesis using b1 b2 o1 o2 by blast
qed

theorem port_argument_is_bound_witness:
  "(1::int) \<le> 3000 \<and> (3000::int) \<le> 65535 \<and>
   bind_requests (startup [''serve.py'', ''3000''] os_free) = [([], 3000)] \<and>
   bind_requests (startup [''serve.py''] os_free) = [([], 8080)] \<and>
   outcome (startup [''serve.py'', ''3000''] os_free) =
     Serving \<lparr>server_address = (INADDR_ANY, 3000), shutdown_request = False\<rparr> \<and>
   outcome (startup [''serve.py''] os_free) =
     Serving \<lparr>server_address = (INADDR_ANY, 8080), shutdown_request = False\<rparr>"
  using port_argument_is_bound [of 3000 "''serve.py''" os_free]
  by (simp add: str_int_examples) (simp add: os_free_def)

text \<open>
  C4. If the sole command-line argument is a string that \<^verbatim>\<open>int\<close> rejects, the process
  fails at startup with the uncaught \<^verbatim>\<open>ValueError\<close> instead of falling back to port
  8080: nothing is passed to the listener, nothing is printed, and the script ends with
  the exception whatever the network would have done.
\<close>

theorem non_numeric_argument_fails_startup:
  assumes "py_int s = Inl e"
  shows "e = ValueError \<and>
         startup [prog, s] os = \<lparr>bind_requests = [], stdout = [], outcome = Uncaught ValueError\<rparr> \<and>
         script [prog, s] os evs = Some (Raised ValueError)"
  using assms py_int_error [OF assms] by (simp add: script_def startup_def PORT_arg)

theorem non_numeric_argument_fails_startup_witness:
  "py_int ''abc'' = Inl ValueError \<and>
   startup [''serve.py'', ''abc''] os_free =
     \<lparr>bind_requests = [], stdout = [], outcome = Uncaught ValueError\<rparr> \<and>
   script [''serve.py'', ''abc''] os_free (sconst Select_timeout) = Some (Raised ValueError)"
  using non_numeric_argument_fails_startup
    [of "''abc''" ValueError "''serve.py''" os_free "sconst Select_timeout"]
  by (simp add: py_int_examples)

text \<open>
  An argument that only \<^verbatim>\<open>str.isspace\<close> would call padded is rejected too.
\<close>

lemma separator_argument_fails_startup:
  "script [''serve.py'', [CHR 0x1C, CHR ''8'', CHR ''0'']] os_free (sconst Select_timeout) =
     Some (Raised ValueError)"
  by (simp add: script_def startup_def PORT_arg py_int_white_space)



text \<open>
  What the socket layer then does with such a value is not the script's doing: a
  negative port is refused by \<^verbatim>\<open>bind\<close> with \<^verbatim>\<open>OverflowError\<close>.
\<close>

lemma negative_port_refused_by_bind:
  "startup [''serve.py'', ''-1''] os_free =
     \<lparr>bind_requests = [([], - 1)], stdout = [], outcome = Uncaught OverflowError\<rparr>"
  by (simp add: PORT_arg py_int_examples startup_def TCPServer_def server_bind_def)

text \<open>
  C6. If binding the TCP listener fails, the process fails to start: the error of the
  bind leaves the script uncaught, nothing is printed, and the serving loop is never
  entered (the script ends with the exception whatever the network would have done).
\<close>

theorem bind_failure_fails_startup:
  assumes "PORT argv = Inr p" and "server_bind os ([], p) = Inl e"
  shows "outcome (startup argv os) = Uncaught e \<and> stdout (startup argv os) = [] \<and>
         script argv os evs = Some (Raised e)"
  using assms by (simp add: script_def startup_def TCPServer_def)

theorem bind_failure_fails_startup_witness:
  "PORT [''serve.py''] = Inr 8080 \<and>
   server_bind os_in_use ([], 8080) = Inl (OSError 98) \<and>
   outcome (startup [''serve.py''] os_in_use) = Uncaught (OSError 98) \<and>
   stdout (startup [''serve.py''] os_in_use) = [] \<and>
   script [''serve.py''] os_in_use (sconst (Select_ready (Accepted Completes))) =
     Some (Raised (OSError 98))"
proof -
  have p: "PORT [''serve.py''] = Inr 8080" by (rule PORT_default)
  have b: "server_bind os_in_use ([], 8080) = Inl (OSError 98)"
    by (simp add: server_bind_def os_in_use_def)
  show ?thesis
    using bind_failure_fails_startup [OF p b, of "sconst (Select_ready (Accepted Completes))"] p b
    by simp
qed

subsection \<open>C7: the serving loop\<close>

text \<open>
  C7, as the claim states it: once started, the server never ends of its own accord and
  ends only through an interruption from outside. It can end with no signal at all: a
  handler raises an exception while standard error is a closed pipe, \<^verbatim>\<open>handle_error\<close>
  fails to print its report (errno 32, \<^verbatim>\<open>EPIPE\<close>), and that \<^verbatim>\<open>OSError\<close> leaves
  \<^verbatim>\<open>serve_forever\<close> and the script.
\<close>

theorem server_ends_without_a_signal:
  "script [''serve.py''] os_free
     (Select_ready (Accepted (Raises_Exception (Some (OSError 32)))) ## sconst Select_timeout) =
     Some (Raised (OSError 32)) \<and>
   \<not> interrupted (Select_ready (Accepted (Raises_Exception (Some (OSError 32)))) ## sconst Select_timeout)"
  by (simp add: script_def PORT_default startup_def TCPServer_def server_bind_def
      server_activate_def setipaddr_def os_free_def serve_forever.simps
      handle_request_noblock_def interrupted_def)

text \<open>
  C7, amended. Once the server has started, it loops accepting and handling connections
  and never returns normally. It ends only when an exception leaves the loop: a
  \<^verbatim>\<open>KeyboardInterrupt\<close> in a run where a signal arrived, or the exception raised by
  \<^verbatim>\<open>select\<close> or by the report of a handler's exception in a run where one of them
  failed. In every run with neither (time-outs, failed accepts, requests that complete,
  requests whose handler raises an \<^verbatim>\<open>Exception\<close> that is reported) the script does not
  return.
\<close>

theorem server_runs_until_interrupted_or_failed:
  assumes "outcome (startup argv os) = Serving httpd"
  shows "script argv os evs \<noteq> Some Returned \<and>
         (\<not> interrupted evs \<and> (\<forall>e. \<not> environment_fails evs e) \<longrightarrow> script argv os evs = None) \<and>
         (\<forall>r. script argv os evs = Some r \<longrightarrow>
              (r = Raised KeyboardInterrupt \<and> interrupted evs) \<or>
              (\<exists>e. r = Raised e \<and> environment_fails evs e))"
proof -
  obtain p where t: "TCPServer os ([], p) = Inr httpd" using assms by (auto simp: startup_Serving)
  have fresh: "\<not> shutdown_request httpd" using TCPServer_fresh [OF t] .
  have s: "script argv os evs = serve_forever httpd evs" using assms by (simp add: script_def)
  have r: "(r = Raised KeyboardInterrupt \<and> interrupted evs) \<or>
           (\<exists>e. r = Raised e \<and> environment_fails evs e)"
    if "serve_forever httpd evs = Some r" for r
    using serve_forever_returns [OF that] fresh by simp
  have n: "serve_forever httpd evs = None"
    if "\<not> interrupted evs \<and> (\<forall>e. \<not> environment_fails evs e)"
  proof (cases "serve_forever httpd evs")
    case None
    then show ?thesis .
  next
    case (Some r)
    then show ?thesis using r [OF Some] that by blast
  qed
  have nr: "serve_forever httpd evs \<noteq> Some Returned"
  proof
    assume "serve_forever httpd evs = Some Returned"
    from r [OF this] show False by auto
  qed
  show ?thesis unfolding s using r n nr by blast
qed

theorem server_runs_until_interrupted_or_failed_witness:
  "outcome (startup [''serve.py''] os_free) =
     Serving \<lparr>server_address = (INADDR_ANY, 8080), shutdown_request = False\<rparr> \<and>
   \<not> interrupted (sconst (Select_ready (Accepted (Raises_Exception None)))) \<and>
   (\<forall>e. \<not> environment_fails (sconst (Select_ready (Accepted (Raises_Exception None)))) e) \<and>
   script [''serve.py''] os_free (sconst (Select_ready (Accepted (Raises_Exception None)))) = None"
proof -
  have s: "outcome (startup [''serve.py''] os_free) =
     Serving \<lparr>server_address = (INADDR_ANY, 8080), shutdown_request = False\<rparr>"
    by (simp add: PORT_default startup_def TCPServer_def server_bind_def server_activate_def
        setipaddr_def os_free_def)
  have i: "\<not> interrupted (sconst (Select_ready (Accepted (Raises_Exception None))))"
    by (simp add: interrupted_def)
  have e: "\<forall>e. \<not> environment_fails (sconst (Select_ready (Accepted (Raises_Exception None)))) e"
    by (simp add: environment_fails_def)
  show ?thesis
    using server_runs_until_interrupted_or_failed
      [OF s, of "sconst (Select_ready (Accepted (Raises_Exception None)))"] s i e
    by simp
qed

text \<open>A signal does end it: two quiet passes, then \<^verbatim>\<open>KeyboardInterrupt\<close>.\<close>

lemma interrupt_ends_the_loop:
  "serve_forever \<lparr>server_address = (INADDR_ANY, 8080), shutdown_request = False\<rparr>
     (Select_timeout ## Select_ready (Accepted Completes) ## sconst Select_interrupted) =
   Some (Raised KeyboardInterrupt)"
  by (simp add: serve_forever.simps handle_request_noblock_def)

subsection \<open>C9 and C10: the announcement and the bound address\<close>

text \<open>
  C9, as the claim states it: the line printed names the bound port. It names the value
  of \<^verbatim>\<open>PORT\<close>: with the argument \<^verbatim>\<open>0\<close> the line says port 0 while the socket is bound
  to the port the kernel picked, here 49152.
\<close>

theorem announcement_names_port_zero:
  "stdout (startup [''serve.py'', ''0''] os_free) = ''Serving on http://localhost:0'' @ [CHR 0x0A] \<and>
   outcome (startup [''serve.py'', ''0''] os_free) =
     Serving \<lparr>server_address = (INADDR_ANY, 49152), shutdown_request = False\<rparr>"
  by (simp add: PORT_arg py_int_examples startup_def TCPServer_def server_bind_def
      server_activate_def setipaddr_def os_free_def announcement_def str_int_examples)

text \<open>
  C9, amended. On successful startup the process prints exactly one line to standard
  output, \<^verbatim>\<open>Serving on http://localhost:<port>\<close>, where \<^verbatim>\<open><port>\<close> is the value of
  \<^verbatim>\<open>PORT\<close> in decimal, the port the script asked the listener for; it is the bound port
  whenever that value is not 0.
\<close>

theorem announcement_names_requested_port:
  assumes "outcome (startup argv os) = Serving httpd" and "PORT argv = Inr p"
  shows "stdout (startup argv os) = ''Serving on http://localhost:'' @ str_int p @ [CHR 0x0A] \<and>
         length (filter (\<lambda>c. c = CHR 0x0A) (stdout (startup argv os))) = 1 \<and>
         bind_requests (startup argv os) = [([], p)] \<and>
         (p \<noteq> 0 \<longrightarrow> snd (server_address httpd) = p)"
proof -
  have t: "TCPServer os ([], p) = Inr httpd" using assms by (auto simp: startup_Serving)
  have s: "stdout (startup argv os) = announcement p @ [CHR 0x0A]"
    using assms by (simp add: startup_stdout)
  show ?thesis
    using TCPServer_address [OF t] count_LF [OF announcement_no_LF, of p]
    by (simp add: s startup_bind_requests assms(2)) (simp add: announcement_def)
qed

theorem announcement_names_requested_port_witness:
  "outcome (startup [''serve.py'', ''3000''] os_free) =
     Serving \<lparr>server_address = (INADDR_ANY, 3000), shutdown_request = False\<rparr> \<and>
   PORT [''serve.py'', ''3000''] = Inr 3000 \<and>
   stdout (startup [''serve.py'', ''3000''] os_free) =
     ''Serving on http://localhost:3000'' @ [CHR 0x0A] \<and>
   length (filter (\<lambda>c. c = CHR 0x0A) (stdout (startup [''serve.py'', ''3000''] os_free))) = 1 \<and>
   snd (server_address \<lparr>server_address = (INADDR_ANY, 3000), shutdown_request = False\<rparr>) = 3000"
proof -
  have p: "PORT [''serve.py'', ''3000''] = Inr 3000" by (simp add: PORT_arg py_int_examples)
  have s: "outcome (startup [''serve.py'', ''3000''] os_free) =
     Serving \<lparr>server_address = (INADDR_ANY, 3000), shutdown_request = False\<rparr>"
    by (simp add: p startup_def TCPServer_def server_bind_def server_activate_def
        setipaddr_def os_free_def)
  show ?thesis
    using announcement_names_requested_port [OF s p] s p by (simp add: str_int_examples)
qed

text \<open>
  C10. The listener is bound to the wildcard address (host \<^verbatim>\<open>''\<close>, that is
  \<^verbatim>\<open>INADDR_ANY\<close>, every interface of the machine) and not to the loopback interface,
  although the announcement names \<^verbatim>\<open>localhost\<close>.
\<close>

theorem listener_is_bound_to_every_interface:
  assumes "outcome (startup argv os) = Serving httpd"
  shows "fst (server_address httpd) = INADDR_ANY \<and>
         (\<exists>p. bind_requests (startup argv os) = [([], p)] \<and>
              stdout (startup argv os) = ''Serving on http://localhost:'' @ str_int p @ [CHR 0x0A])"
proof -
  obtain p where p: "PORT argv = Inr p" and t: "TCPServer os ([], p) = Inr httpd"
    using assms by (auto simp: startup_Serving)
  show ?thesis
    using TCPServer_address [OF t] assms
    by (simp add: startup_stdout startup_bind_requests p setipaddr_def announcement_def)
qed

theorem listener_is_bound_to_every_interface_witness:
  "outcome (startup [''serve.py''] os_free) =
     Serving \<lparr>server_address = (INADDR_ANY, 8080), shutdown_request = False\<rparr> \<and>
   fst (server_address \<lparr>server_address = (INADDR_ANY, 8080), shutdown_request = False\<rparr>) =
     INADDR_ANY \<and>
   bind_requests (startup [''serve.py''] os_free) = [([], 8080)] \<and>
   stdout (startup [''serve.py''] os_free) = ''Serving on http://localhost:8080'' @ [CHR 0x0A]"
proof -
  have s: "outcome (startup [''serve.py''] os_free) =
     Serving \<lparr>server_address = (INADDR_ANY, 8080), shutdown_request = False\<rparr>"
    by (simp add: PORT_default startup_def TCPServer_def server_bind_def server_activate_def
        setipaddr_def os_free_def)
  have b: "bind_requests (startup [''serve.py''] os_free) = [([], 8080)]"
    by (simp add: startup_bind_requests PORT_default)
  show ?thesis
    using listener_is_bound_to_every_interface [OF s] s b by (simp add: str_int_examples)
qed

end
